theory Spec2Isabelle
  imports Main "HOL-Library.Word"
begin

section \<open>The InputTools composition controller\<close>

text \<open>
  A shallow embedding of \<^verbatim>\<open>src/components/InputTools/InputTools.tsx\<close>: the state of the
  React component \<^verbatim>\<open>InputTools\<close>, its event handlers, the body of the debounced
  search and the effect that schedules it.

  Every handler is a function from the state of the render it was created in to the
  state of the next render. React flushes the updates of a discrete event (key, click,
  change) before the next event is dispatched, so the state a handler closes over is the
  latest one, and the \<^verbatim>\<open>prev\<close> of a functional update is the closed-over value.
  No handler sets a state variable twice.
\<close>

subsection \<open>JavaScript strings\<close>

text \<open>
  A JavaScript string is a sequence of UTF-16 code units; \<^verbatim>\<open>length\<close>,
  \<^verbatim>\<open>substring\<close> and \<^verbatim>\<open>slice\<close> count code units, and a regular expression
  without the \<^verbatim>\<open>u\<close> flag matches code units.
\<close>

type_synonym jschar = "16 word"
type_synonym jsstring = "jschar list"

text \<open>String literals of the source are ASCII.\<close>

definition ascii :: "string \<Rightarrow> jsstring" where
  "ascii cs = map of_char cs"

text \<open>
  \<^verbatim>\<open>String.prototype.substring(start, end)\<close>: both arguments are clamped to
  \<open>[0, length]\<close> and swapped when the first is the larger.
\<close>

definition substring :: "jsstring \<Rightarrow> int \<Rightarrow> int \<Rightarrow> jsstring" where
  "substring str intStart intEnd =
     (let len = int (length str);
          finalStart = min (max intStart 0) len;
          finalEnd = min (max intEnd 0) len;
          from = min finalStart finalEnd;
          to = max finalStart finalEnd
      in take (nat (to - from)) (drop (nat from) str))"

text \<open>
  \<^verbatim>\<open>String.prototype.slice(start, end)\<close>: a negative argument counts from the end of
  the string; the result is empty when the bounds cross.
\<close>

definition slice :: "jsstring \<Rightarrow> int \<Rightarrow> int \<Rightarrow> jsstring" where
  "slice str intStart intEnd =
     (let len = int (length str);
          from = (if intStart < 0 then max (len + intStart) 0 else min intStart len);
          to = (if intEnd < 0 then max (len + intEnd) 0 else min intEnd len)
      in take (nat (max (to - from) 0)) (drop (nat from) str))"

text \<open>\<^verbatim>\<open>str.slice(start)\<close>: the end defaults to the length.\<close>

definition slice_from :: "jsstring \<Rightarrow> int \<Rightarrow> jsstring" where
  "slice_from str intStart = slice str intStart (int (length str))"

text \<open>
  \<^verbatim>\<open>isAplhaNumeric\<close> tests \<^verbatim>\<open>/^[A-Za-z0-9]$/\<close>: the string is exactly one code
  unit, and that unit is an ASCII letter or digit.
\<close>

definition alnum_unit :: "jschar \<Rightarrow> bool" where
  "alnum_unit c \<longleftrightarrow>
     (0x41 \<le> c \<and> c \<le> 0x5A) \<or> (0x61 \<le> c \<and> c \<le> 0x7A) \<or> (0x30 \<le> c \<and> c \<le> 0x39)"

fun isAplhaNumeric :: "jsstring \<Rightarrow> bool" where
  "isAplhaNumeric [c] = alnum_unit c"
| "isAplhaNumeric _ = False"

subsection \<open>Numbers\<close>

text \<open>
  \<^verbatim>\<open>cursorPosition\<close> is a JavaScript number. The numbers the component computes are
  integers, or \<^verbatim>\<open>NaN\<close> once \<^verbatim>\<open>undefined\<close> has entered a sum. \<open>add_number\<close> is
  \<^verbatim>\<open>+\<close> on numbers, \<open>to_number\<close> is the conversion \<^verbatim>\<open>+\<close> applies to a property that
  may be \<^verbatim>\<open>undefined\<close>, and \<open>to_integer\<close> is the conversion \<^verbatim>\<open>substring\<close> applies
  to its arguments, which takes \<^verbatim>\<open>NaN\<close> to 0.
\<close>

datatype number = Num int | NaN

fun add_number :: "number \<Rightarrow> number \<Rightarrow> number" where
  "add_number (Num a) (Num b) = Num (a + b)"
| "add_number _ _ = NaN"

fun to_number :: "int option \<Rightarrow> number" where
  "to_number (Some n) = Num n"
| "to_number None = NaN"

fun to_integer :: "number \<Rightarrow> int" where
  "to_integer (Num n) = n"
| "to_integer NaN = 0"

text \<open>The comparisons \<^verbatim>\<open>0 <= c\<close> and \<^verbatim>\<open>0 <= c && c <= n\<close>; both are false of \<^verbatim>\<open>NaN\<close>.\<close>

fun non_negative :: "number \<Rightarrow> bool" where
  "non_negative (Num p) = (0 \<le> p)"
| "non_negative NaN = False"

fun in_range :: "number \<Rightarrow> nat \<Rightarrow> bool" where
  "in_range (Num p) n = (0 \<le> p \<and> p \<le> int n)"
| "in_range NaN n = False"

subsection \<open>Candidates\<close>

text \<open>
  \<^verbatim>\<open>suggestion\<close> is declared \<^verbatim>\<open>string[]\<close>, but it is set from the parsed response,
  which is untyped, so at run time a candidate is any JSON value that React can render as
  the child \<^verbatim>\<open>{el}\<close> of a list item (line 276): \<^verbatim>\<open>null\<close>, a boolean, a number, a
  string, or an array of such values. An object is not a valid child; what happens then
  is part of \<open>receive\<close> below. Numbers are integers here, as in \<open>json\<close> below.
\<close>

datatype candidate =
    CNull
  | CBool bool
  | CNumber int
  | CString jsstring
  | CArray "candidate list"

text \<open>The falsy values of \<^verbatim>\<open>if(selectedValue)\<close>, besides \<^verbatim>\<open>undefined\<close>.\<close>

fun truthy :: "candidate \<Rightarrow> bool" where
  "truthy CNull = False"
| "truthy (CBool b) = b"
| "truthy (CNumber n) = (n \<noteq> 0)"
| "truthy (CString str) = (str \<noteq> [])"
| "truthy (CArray xs) = True"

text \<open>
  The text a template literal inserts for \<^verbatim>\<open>${selectedValue}\<close>. An integer prints in
  decimal digits (JavaScript changes to exponent notation from \<^verbatim>\<open>1e21\<close> on); an array
  prints its elements joined by commas, a \<^verbatim>\<open>null\<close> element as the empty text.
\<close>

function decimal :: "nat \<Rightarrow> jsstring" where
  "decimal n = (if n < 10 then [of_nat (48 + n)] else decimal (n div 10) @ [of_nat (48 + n mod 10)])"
  by pat_completeness auto
termination
  by (relation "measure id") auto

declare decimal.simps [simp del]

definition number_text :: "int \<Rightarrow> jsstring" where
  "number_text n = (if n < 0 then ascii ''-'' @ decimal (nat (- n)) else decimal (nat n))"

fun to_text :: "candidate \<Rightarrow> jsstring" and join :: "candidate list \<Rightarrow> jsstring" where
  "to_text CNull = ascii ''null''"
| "to_text (CBool b) = (if b then ascii ''true'' else ascii ''false'')"
| "to_text (CNumber n) = number_text n"
| "to_text (CString str) = str"
| "to_text (CArray xs) = join xs"
| "join [] = []"
| "join (x # xs) =
     (if x = CNull then [] else to_text x) @ (if xs = [] then [] else ascii '','' @ join xs)"

text \<open>
  \<^verbatim>\<open>selectedValue.length\<close>: the length of a string or an array, \<^verbatim>\<open>undefined\<close> for a
  number or a boolean.
\<close>

fun length_of :: "candidate \<Rightarrow> int option" where
  "length_of (CString str) = Some (int (length str))"
| "length_of (CArray xs) = Some (int (length xs))"
| "length_of _ = None"

fun is_text :: "candidate \<Rightarrow> bool" where
  "is_text (CString str) = True"
| "is_text _ = False"

subsection \<open>Component state\<close>

datatype display = DISPLAY_NONE | DISPLAY_BLOCK

text \<open>
  The \<^verbatim>\<open>useState\<close> variables and the \<^verbatim>\<open>metaKey\<close> ref of the component, with the
  values they hold at run time. \<^verbatim>\<open>value\<close> is \<open>value_st\<close> here. \<^verbatim>\<open>leftPos\<close> and
  \<^verbatim>\<open>topPos\<close> are computed from the geometry of the rendered field and are left out.

  Five more fields hold what the component has outstanding in its environment:
  \<open>pendingSearch\<close> is the argument of the armed debounce timer, \<open>requests\<close> the words
  for which \<^verbatim>\<open>fetch\<close> has been called, \<open>inflight\<close> the number of those not yet
  answered, \<open>metaResets\<close> the number of scheduled \<^verbatim>\<open>setTimeout\<close> callbacks that
  reset the \<^verbatim>\<open>metaKey\<close> ref, and \<open>unmounted\<close> tells that React has removed the
  component after an error while rendering.
\<close>

record state =
  value_st :: jsstring
  typedWord :: jsstring
  suggestion :: "candidate list"
  showSuggestion :: display
  selectedSuggestion :: int
  cursorPosition :: number
  metaKey :: bool
  pendingSearch :: "jsstring option"
  requests :: "jsstring list"
  inflight :: nat
  metaResets :: nat
  unmounted :: bool

text \<open>The state of the first render: the arguments of \<^verbatim>\<open>useState\<close> and \<^verbatim>\<open>useRef\<close>.\<close>

definition initial :: state where
  "initial = \<lparr> value_st = [], typedWord = [], suggestion = [],
               showSuggestion = DISPLAY_NONE, selectedSuggestion = 0,
               cursorPosition = Num 1, metaKey = False,
               pendingSearch = None, requests = [], inflight = 0, metaResets = 0,
               unmounted = False \<rparr>"

subsection \<open>Commit and clear\<close>

definition clearSuggestion :: "state \<Rightarrow> state" where
  "clearSuggestion s =
     s\<lparr> typedWord := [], suggestion := [], selectedSuggestion := 0,
        showSuggestion := DISPLAY_NONE, metaKey := False \<rparr>"

text \<open>
  \<^verbatim>\<open>suggestion[idx]\<close> is \<^verbatim>\<open>undefined\<close> outside the array, and \<^verbatim>\<open>undefined\<close> is
  falsy. The new cursor position is \<^verbatim>\<open>prev + selectedValue.length + 1\<close>, summed from
  the left.
\<close>

definition index :: "'a list \<Rightarrow> int \<Rightarrow> 'a option" where
  "index xs i = (if 0 \<le> i \<and> i < int (length xs) then Some (xs ! nat i) else None)"

definition selectSuggestion :: "int \<Rightarrow> state \<Rightarrow> state" where
  "selectSuggestion idx s =
     (let selectedValue = index (suggestion s) idx;
          leftValue = substring (value_st s) 0 (to_integer (cursorPosition s));
          rightValue = substring (value_st s) (to_integer (cursorPosition s))
                         (int (length (value_st s)))
      in clearSuggestion
           (case selectedValue of
              None \<Rightarrow> s
            | Some sv \<Rightarrow>
                if truthy sv then
                  s\<lparr> value_st := leftValue @ to_text sv @ ascii '' '' @ rightValue,
                     cursorPosition :=
                       add_number (add_number (cursorPosition s) (to_number (length_of sv)))
                         (Num 1) \<rparr>
                else s))"

subsection \<open>Key events\<close>

record key_event =
  key :: jsstring
  metaKey_ev :: bool

definition onKeyDown :: "key_event \<Rightarrow> state \<Rightarrow> state" where
  "onKeyDown event s = (if metaKey_ev event then s\<lparr> metaKey := True \<rparr> else s)"

definition handleNonAlphaKeyPress :: "jsstring \<Rightarrow> state \<Rightarrow> state" where
  "handleNonAlphaKeyPress k s =
     (if k = ascii ''ArrowDown'' then
        s\<lparr> selectedSuggestion :=
             (if selectedSuggestion s < int (length (suggestion s)) - 1
              then selectedSuggestion s + 1 else selectedSuggestion s) \<rparr>
      else if k = ascii ''ArrowUp'' then
        s\<lparr> selectedSuggestion :=
             (if selectedSuggestion s > 0
              then selectedSuggestion s - 1 else selectedSuggestion s) \<rparr>
      else if k = ascii ''Enter'' then selectSuggestion (selectedSuggestion s) s
      else if k = ascii '' '' then selectSuggestion (selectedSuggestion s) s
      else if k = ascii ''Backspace'' then
        (if typedWord s \<noteq> [] then
           s\<lparr> typedWord :=
                (if typedWord s \<noteq> [] then slice (typedWord s) 0 (- 1) else typedWord s) \<rparr>
         else clearSuggestion s)
      else s)"

definition onKeyUp :: "key_event \<Rightarrow> state \<Rightarrow> state" where
  "onKeyUp event s =
     (if metaKey_ev event \<or> key event = ascii ''Meta'' then
        s\<lparr> metaResets := metaResets s + 1 \<rparr>
      else if metaKey s then s
      else if isAplhaNumeric (key event) then
        s\<lparr> showSuggestion := DISPLAY_BLOCK, typedWord := typedWord s @ key event \<rparr>
      else if showSuggestion s = DISPLAY_NONE then s
      else handleNonAlphaKeyPress (key event) s)"

text \<open>The callback of \<^verbatim>\<open>setTimeout\<close> in \<^verbatim>\<open>onKeyUp\<close>, 100 ms later.\<close>

definition metaReset :: "state \<Rightarrow> state" where
  "metaReset s = s\<lparr> metaKey := False, metaResets := metaResets s - 1 \<rparr>"

subsection \<open>Native change events\<close>

text \<open>
  What \<^verbatim>\<open>onChange\<close> reads of \<^verbatim>\<open>event.target\<close>. The field keeps
  \<open>selectionStart \<le> selectionEnd \<le> length value\<close>.
\<close>

record change_event =
  target_value :: jsstring
  selectionStart :: nat
  selectionEnd :: nat

definition onChange :: "change_event \<Rightarrow> state \<Rightarrow> state" where
  "onChange event s =
     (if showSuggestion s = DISPLAY_BLOCK then s
      else
        let lastChar =
              slice_from (substring (target_value event) 0 (int (selectionStart event))) (- 1)
        in if isAplhaNumeric lastChar then
             s\<lparr> cursorPosition := Num (int (selectionEnd event) - 1) \<rparr>
           else
             s\<lparr> cursorPosition := Num (int (selectionEnd event)),
                value_st := target_value event \<rparr>)"

subsection \<open>The suggestion fetch\<close>

text \<open>
  The value \<^verbatim>\<open>res.json()\<close> resolves to. Numbers are integers here: the callback
  never inspects one, and a number that becomes a candidate is only tested against zero
  and printed.
\<close>

datatype json =
    JNull
  | JBool bool
  | JNumber int
  | JString jsstring
  | JArray "json list"
  | JObject "(jsstring \<times> json) list"

text \<open>
  The spread \<^verbatim>\<open>[...x]\<close> iterates an array by element and a string by code point (a
  high surrogate followed by a low surrogate is one element); every other JSON value is
  not iterable and the spread throws a \<^verbatim>\<open>TypeError\<close>.
\<close>

fun code_points :: "jsstring \<Rightarrow> jsstring list" where
  "code_points [] = []"
| "code_points [c] = [[c]]"
| "code_points (c # d # cs) =
     (if 0xD800 \<le> c \<and> c \<le> 0xDBFF \<and> 0xDC00 \<le> d \<and> d \<le> 0xDFFF
      then [c, d] # code_points cs
      else [c] # code_points (d # cs))"

fun spread :: "json \<Rightarrow> json list option" where
  "spread (JArray xs) = Some xs"
| "spread (JString str) = Some (map JString (code_points str))"
| "spread _ = None"

text \<open>
  What the callback does once the response has been parsed (lines 84 to 96): it returns
  early, throws at the spread, or calls \<^verbatim>\<open>setSuggestion\<close>.
\<close>

datatype outcome = Returned | ThrewTypeError | SetSuggestion "json list"

definition on_data_res :: "json \<Rightarrow> outcome" where
  "on_data_res dataRes =
     (case dataRes of
        JArray r \<Rightarrow>
          if length r < 2 then Returned
          else (case spread (r ! 1) of
                  None \<Rightarrow> ThrewTypeError
                | Some alts \<Rightarrow> SetSuggestion (alts @ [r ! 0]))
      | _ \<Rightarrow> Returned)"

definition on_response :: "json \<Rightarrow> outcome" where
  "on_response data =
     (case data of
        JArray d \<Rightarrow>
          if length d < 2 then Returned
          else if d ! 0 \<noteq> JString (ascii ''SUCCESS'') then Returned
          else (case d ! 1 of
                  JArray d1 \<Rightarrow> if length d1 < 1 then Returned else on_data_res (d1 ! 0)
                | _ \<Rightarrow> Returned)
      | _ \<Rightarrow> Returned)"

text \<open>
  The list handed to \<^verbatim>\<open>setSuggestion\<close> as the next render sees it: \<open>None\<close> when an
  object occurs in it, at any depth.
\<close>

fun as_candidate :: "json \<Rightarrow> candidate option"
  and as_candidates :: "json list \<Rightarrow> candidate list option" where
  "as_candidate JNull = Some CNull"
| "as_candidate (JBool b) = Some (CBool b)"
| "as_candidate (JNumber n) = Some (CNumber n)"
| "as_candidate (JString str) = Some (CString str)"
| "as_candidate (JArray xs) = map_option CArray (as_candidates xs)"
| "as_candidate (JObject members) = None"
| "as_candidates [] = Some []"
| "as_candidates (x # xs) =
     (case as_candidate x of
        None \<Rightarrow> None
      | Some c \<Rightarrow> (case as_candidates xs of None \<Rightarrow> None | Some cs \<Rightarrow> Some (c # cs)))"

text \<open>
  The arrival of a response at the component: one request fewer is in flight, and
  \<^verbatim>\<open>setSuggestion\<close> is called with whatever passed the checks, strings or not. The
  render that follows maps every candidate to a list item with the child \<^verbatim>\<open>{el}\<close>.
  React throws on a child that is an object; no error boundary encloses the component, so
  React removes it, and the cleanup of the effect cancels the armed timer.
\<close>

definition receive :: "json \<Rightarrow> state \<Rightarrow> state" where
  "receive data s =
     (let s' = s\<lparr> inflight := inflight s - 1 \<rparr>
      in case on_response data of
           Returned \<Rightarrow> s'
         | ThrewTypeError \<Rightarrow> s'
         | SetSuggestion xs \<Rightarrow>
             (case as_candidates xs of
                None \<Rightarrow> s'\<lparr> pendingSearch := None, unmounted := True \<rparr>
              | Some cs \<Rightarrow> s'\<lparr> suggestion := cs \<rparr>))"

text \<open>A response all of whose candidates are strings, as the declared type expects.\<close>

fun is_string :: "json \<Rightarrow> bool" where
  "is_string (JString str) = True"
| "is_string _ = False"

definition text_response :: "json \<Rightarrow> bool" where
  "text_response data =
     (case on_response data of SetSuggestion xs \<Rightarrow> list_all is_string xs | _ \<Rightarrow> True)"

text \<open>
  The debounced callback up to the \<^verbatim>\<open>fetch\<close> (lines 75 to 81): nothing for an empty
  word, one request otherwise.
\<close>

definition debouncedSearch :: "jsstring \<Rightarrow> state \<Rightarrow> state" where
  "debouncedSearch word s =
     (if word = [] then s
      else s\<lparr> requests := requests s @ [word], inflight := inflight s + 1 \<rparr>)"

text \<open>The debounce timer fires: the callback runs on the last argument it was armed with.\<close>

definition debounceFired :: "state \<Rightarrow> state" where
  "debounceFired s =
     (case pendingSearch s of
        None \<Rightarrow> s
      | Some word \<Rightarrow> debouncedSearch word (s\<lparr> pendingSearch := None \<rparr>))"

text \<open>
  The effect on \<^verbatim>\<open>typedWord\<close> (lines 102 to 110), run after a render in which
  \<^verbatim>\<open>typedWord\<close> differs from the previous render: the cleanup of the previous run
  cancels the armed timer, then a non-empty word arms it again.
\<close>

definition searchEffect :: "state \<Rightarrow> state \<Rightarrow> state" where
  "searchEffect old new =
     (if typedWord new = typedWord old then new
      else new\<lparr> pendingSearch := (if typedWord new \<noteq> [] then Some (typedWord new) else None) \<rparr>)"

subsection \<open>Events and runs\<close>

datatype event =
    KeyDown key_event
  | KeyUp key_event
  | Change change_event
  | Click nat
  | MetaResetFired
  | DebounceFired
  | Response json
  | FetchFailed

text \<open>
  When the environment can deliver an event to the component: a change event carries a
  selection inside the reported text, a click hits a rendered candidate of the shown
  popup, a timer fires only if armed, a response or a failure answers a request; and
  nothing reaches a component that has been removed.
\<close>

fun deliverable :: "state \<Rightarrow> event \<Rightarrow> bool" where
  "deliverable s (KeyDown ev) = True"
| "deliverable s (KeyUp ev) = True"
| "deliverable s (Change ev) =
     (selectionStart ev \<le> selectionEnd ev \<and> selectionEnd ev \<le> length (target_value ev))"
| "deliverable s (Click idx) =
     (showSuggestion s = DISPLAY_BLOCK \<and> idx < length (suggestion s))"
| "deliverable s MetaResetFired = (0 < metaResets s)"
| "deliverable s DebounceFired = (pendingSearch s \<noteq> None)"
| "deliverable s (Response data) = (0 < inflight s)"
| "deliverable s FetchFailed = (0 < inflight s)"

definition enabled :: "state \<Rightarrow> event \<Rightarrow> bool" where
  "enabled s e = (\<not> unmounted s \<and> deliverable s e)"

fun handle :: "event \<Rightarrow> state \<Rightarrow> state" where
  "handle (KeyDown ev) s = onKeyDown ev s"
| "handle (KeyUp ev) s = onKeyUp ev s"
| "handle (Change ev) s = onChange ev s"
| "handle (Click idx) s = selectSuggestion (int idx) s"
| "handle MetaResetFired s = metaReset s"
| "handle DebounceFired s = debounceFired s"
| "handle (Response data) s = receive data s"
| "handle FetchFailed s = s\<lparr> inflight := inflight s - 1 \<rparr>"

text \<open>One event: its handler, then the effects of the render that follows.\<close>

definition step :: "state \<Rightarrow> event \<Rightarrow> state" where
  "step s e = searchEffect s (handle e s)"

fun run :: "state \<Rightarrow> event list \<Rightarrow> state option" where
  "run s [] = Some s"
| "run s (e # es) = (if enabled s e then run (step s e) es else None)"

text \<open>
  Two conditions on what the environment sends, used to tell which runs keep the cursor
  position inside the value. A response is well behaved when its candidates are strings.
  A native change is well behaved unless it arrives with the popup hidden, has an
  alphanumeric code unit before its \<open>selectionStart\<close> and reports a \<open>selectionEnd\<close>
  beyond \<open>length value + 1\<close>; an edit that inserts at most one code unit is always well
  behaved.
\<close>

fun well_behaved :: "state \<Rightarrow> event \<Rightarrow> bool" where
  "well_behaved s (Change ev) =
     (showSuggestion s = DISPLAY_NONE \<and> 0 < selectionStart ev
        \<and> alnum_unit (target_value ev ! (selectionStart ev - 1))
      \<longrightarrow> selectionEnd ev \<le> length (value_st s) + 1)"
| "well_behaved s (Response data) = text_response data"
| "well_behaved s _ = True"

fun well_behaved_run :: "state \<Rightarrow> event list \<Rightarrow> bool" where
  "well_behaved_run s [] = True"
| "well_behaved_run s (e # es) = (well_behaved s e \<and> well_behaved_run (step s e) es)"

section \<open>Properties\<close>

subsection \<open>String operations\<close>

lemma substring_prefix: "substring v 0 p = take (nat p) v"
  by (auto simp: substring_def Let_def min_def max_def)

lemma substring_suffix: "substring v p (int (length v)) = drop (nat p) v"
  by (auto simp: substring_def Let_def min_def max_def)

lemma slice_butlast: "slice v 0 (- 1) = butlast v"
  by (auto simp: slice_def Let_def min_def max_def butlast_conv_take nat_diff_distrib)

lemma slice_from_last: "slice_from v (- 1) = (if v = [] then [] else [last v])"
proof (cases v rule: rev_cases)
  case Nil
  then show ?thesis by (simp add: slice_from_def slice_def)
next
  case (snoc ys y)
  then show ?thesis
    by (simp add: slice_from_def slice_def Let_def max_def nat_add_distrib)
qed

lemma lastChar_alnum:
  "isAplhaNumeric (slice_from (substring v 0 (int n)) (- 1)) \<longleftrightarrow>
     0 < n \<and> v \<noteq> [] \<and> alnum_unit (v ! (min n (length v) - 1))"
  by (auto simp: slice_from_last substring_prefix last_conv_nth min_def)

subsection \<open>Commit\<close>




lemma empty_candidate_reachable:
  "run initial
     [KeyUp \<lparr> key = ascii ''a'', metaKey_ev = False \<rparr>,
      DebounceFired,
      Response (JArray [JString (ascii ''SUCCESS''),
                  JArray [JArray [JString (ascii ''a''), JArray [JString []]]]])]
   = Some (initial\<lparr> typedWord := ascii ''a'', suggestion := [CString [], CString (ascii ''a'')],
                    showSuggestion := DISPLAY_BLOCK, requests := [ascii ''a''] \<rparr>)"
  by (simp add: enabled_def step_def searchEffect_def onKeyUp_def debounceFired_def
      debouncedSearch_def receive_def on_response_def on_data_res_def initial_def ascii_def
      alnum_unit_def)

text \<open>
  C8. When \<open>idx\<close> is outside \<open>suggestion\<close>, or no candidate exists there (the value at
  \<open>idx\<close> is falsy: the empty string, or \<^verbatim>\<open>null\<close>, \<^verbatim>\<open>false\<close> or 0),
  \<open>selectSuggestion idx\<close> leaves the value and the cursor position as they were and
  clears the composition: \<open>typedWord\<close> and \<open>suggestion\<close> empty, \<open>selectedSuggestion\<close> 0,
  popup hidden.
\<close>

theorem selectSuggestion_no_candidate:
  assumes "idx < 0 \<or> int (length (suggestion s)) \<le> idx \<or> \<not> truthy (suggestion s ! nat idx)"
  shows "value_st (selectSuggestion idx s) = value_st s
       \<and> cursorPosition (selectSuggestion idx s) = cursorPosition s
       \<and> typedWord (selectSuggestion idx s) = []
       \<and> suggestion (selectSuggestion idx s) = []
       \<and> selectedSuggestion (selectSuggestion idx s) = 0
       \<and> showSuggestion (selectSuggestion idx s) = DISPLAY_NONE"
  using assms
  by (auto simp: selectSuggestion_def index_def clearSuggestion_def)

theorem selectSuggestion_no_candidate_witness:
  "value_st (selectSuggestion 2
      (initial\<lparr> value_st := ascii ''ab'', typedWord := ascii ''x'',
                suggestion := [CString (ascii ''y'')], showSuggestion := DISPLAY_BLOCK \<rparr>))
     = ascii ''ab''
   \<and> cursorPosition (selectSuggestion 2
      (initial\<lparr> value_st := ascii ''ab'', typedWord := ascii ''x'',
                suggestion := [CString (ascii ''y'')], showSuggestion := DISPLAY_BLOCK \<rparr>))
     = Num 1
   \<and> typedWord (selectSuggestion 2
      (initial\<lparr> value_st := ascii ''ab'', typedWord := ascii ''x'',
                suggestion := [CString (ascii ''y'')], showSuggestion := DISPLAY_BLOCK \<rparr>)) = []
   \<and> showSuggestion (selectSuggestion 2
      (initial\<lparr> value_st := ascii ''ab'', typedWord := ascii ''x'',
                suggestion := [CString (ascii ''y'')], showSuggestion := DISPLAY_BLOCK \<rparr>))
     = DISPLAY_NONE
   \<and> value_st (selectSuggestion 0
      (initial\<lparr> value_st := ascii ''ab'', typedWord := ascii ''x'',
                suggestion := [CString []], showSuggestion := DISPLAY_BLOCK \<rparr>))
     = ascii ''ab''"
  using selectSuggestion_no_candidate [of 2 "initial\<lparr> value_st := ascii ''ab'',
      typedWord := ascii ''x'', suggestion := [CString (ascii ''y'')],
      showSuggestion := DISPLAY_BLOCK \<rparr>"]
    selectSuggestion_no_candidate [of 0 "initial\<lparr> value_st := ascii ''ab'',
      typedWord := ascii ''x'', suggestion := [CString []],
      showSuggestion := DISPLAY_BLOCK \<rparr>"]
  by (simp add: initial_def)

subsection \<open>Native change events\<close>

text \<open>
  C7. A native change event that fires while the popup is shown is rejected: the handler
  returns the state it was given, and so does the whole step, effects included.
\<close>

theorem onChange_rejected:
  assumes "showSuggestion s = DISPLAY_BLOCK"
  shows "onChange ev s = s \<and> step s (Change ev) = s"
  using assms by (simp add: onChange_def step_def searchEffect_def)

theorem onChange_rejected_witness:
  "step (initial\<lparr> typedWord := ascii ''a'', showSuggestion := DISPLAY_BLOCK \<rparr>)
        (Change \<lparr> target_value = ascii ''a'', selectionStart = 1, selectionEnd = 1 \<rparr>)
     = initial\<lparr> typedWord := ascii ''a'', showSuggestion := DISPLAY_BLOCK \<rparr>"
  using onChange_rejected [of "initial\<lparr> typedWord := ascii ''a'',
      showSuggestion := DISPLAY_BLOCK \<rparr>"
      "\<lparr> target_value = ascii ''a'', selectionStart = 1, selectionEnd = 1 \<rparr>"]
  by simp

lemma butlast_neq: "w \<noteq> [] \<Longrightarrow> butlast w \<noteq> w"
proof
  assume ne: "w \<noteq> []" and eq: "butlast w = w"
  have "length (butlast w) = length w" by (rule arg_cong [OF eq])
  then have "length w - 1 = length w" by (simp only: length_butlast)
  moreover have "0 < length w" using ne by simp
  ultimately show False by arith
qed

lemma onChange_hidden_state:
  assumes "showSuggestion s = DISPLAY_NONE"
    and "selectionStart ev \<le> length (target_value ev)"
  shows "onChange ev s =
     (if 0 < selectionStart ev \<and> alnum_unit (target_value ev ! (selectionStart ev - 1))
      then s\<lparr> cursorPosition := Num (int (selectionEnd ev) - 1) \<rparr>
      else s\<lparr> cursorPosition := Num (int (selectionEnd ev)), value_st := target_value ev \<rparr>)"
proof -
  have "isAplhaNumeric (slice_from (substring (target_value ev) 0 (int (selectionStart ev))) (- 1))
      \<longleftrightarrow> 0 < selectionStart ev \<and> alnum_unit (target_value ev ! (selectionStart ev - 1))"
    using assms(2) by (auto simp: lastChar_alnum min_def)
  with assms(1) show ?thesis
    by (simp add: onChange_def Let_def)
qed

text \<open>
  C4 (as amended). For a native change event arriving while the popup is hidden: when
  the code unit immediately before the reported \<open>selectionStart\<close> is alphanumeric, the
  reported value is not adopted (the value stays as it was) and \<open>cursorPosition\<close> becomes
  the reported \<open>selectionEnd\<close> minus one; otherwise the value becomes the reported value
  and \<open>cursorPosition\<close> the reported \<open>selectionEnd\<close>. Nothing else changes.
\<close>

theorem onChange_hidden:
  assumes "showSuggestion s = DISPLAY_NONE"
    and "selectionStart ev \<le> length (target_value ev)"
  shows "onChange ev s =
     (if 0 < selectionStart ev \<and> alnum_unit (target_value ev ! (selectionStart ev - 1))
      then s\<lparr> cursorPosition := Num (int (selectionEnd ev) - 1) \<rparr>
      else s\<lparr> cursorPosition := Num (int (selectionEnd ev)), value_st := target_value ev \<rparr>)"
  using assms by (rule onChange_hidden_state)

theorem onChange_hidden_witness:
  "onChange \<lparr> target_value = ascii ''a'', selectionStart = 1, selectionEnd = 1 \<rparr> initial
     = initial\<lparr> cursorPosition := Num 0 \<rparr>
   \<and> onChange \<lparr> target_value = ascii ''a '', selectionStart = 2, selectionEnd = 2 \<rparr>
        (initial\<lparr> value_st := ascii ''a'' \<rparr>)
     = initial\<lparr> cursorPosition := Num 2, value_st := ascii ''a '' \<rparr>"
  using onChange_hidden [of initial
      "\<lparr> target_value = ascii ''a'', selectionStart = 1, selectionEnd = 1 \<rparr>"]
    onChange_hidden [of "initial\<lparr> value_st := ascii ''a'' \<rparr>"
      "\<lparr> target_value = ascii ''a '', selectionStart = 2, selectionEnd = 2 \<rparr>"]
  by (simp add: initial_def ascii_def alnum_unit_def)

text \<open>
  The reported value is not adopted in the alphanumeric case: on the first render, the
  field reports the text \<open>a\<close> with the cursor behind it, and the value stays empty.
\<close>

theorem onChange_alnum_not_adopted:
  "\<not> (value_st (onChange \<lparr> target_value = ascii ''a'', selectionStart = 1, selectionEnd = 1 \<rparr>
                  initial) = ascii ''a''
      \<and> cursorPosition (onChange \<lparr> target_value = ascii ''a'', selectionStart = 1,
                  selectionEnd = 1 \<rparr> initial) = Num (1 - 1))"
  by (simp add: onChange_def initial_def ascii_def slice_from_def slice_def substring_def
      alnum_unit_def)

subsection \<open>Key events\<close>

lemma key_names_not_alnum:
  "\<not> isAplhaNumeric (ascii ''ArrowDown'')" "\<not> isAplhaNumeric (ascii ''ArrowUp'')"
  "\<not> isAplhaNumeric (ascii ''Enter'')" "\<not> isAplhaNumeric (ascii '' '')"
  "\<not> isAplhaNumeric (ascii ''Backspace'')" "\<not> isAplhaNumeric (ascii ''Meta'')"
  by (simp_all add: ascii_def alnum_unit_def)

lemma key_names_distinct:
  "ascii ''Backspace'' \<noteq> ascii ''ArrowDown''" "ascii ''Backspace'' \<noteq> ascii ''ArrowUp''"
  "ascii ''Backspace'' \<noteq> ascii ''Enter''" "ascii ''Backspace'' \<noteq> ascii '' ''"
  "ascii ''Backspace'' \<noteq> ascii ''Meta''" "ascii ''ArrowUp'' \<noteq> ascii ''ArrowDown''"
  "ascii ''ArrowDown'' \<noteq> ascii ''Meta''" "ascii ''ArrowUp'' \<noteq> ascii ''Meta''"
  by (simp_all add: ascii_def)

text \<open>
  C5 (as amended). For a Backspace key-up that is not suppressed by the platform
  modifier (the event's \<open>metaKey\<close> is false and the \<open>metaKey\<close> ref is clear), while the
  popup is shown: a non-empty \<open>typedWord\<close> of length \<open>L\<close> loses its last code unit, so
  has length \<open>L - 1\<close>, and the popup stays shown; with an empty \<open>typedWord\<close> the
  composition is cleared (\<open>typedWord\<close> and \<open>suggestion\<close> empty, \<open>selectedSuggestion\<close> 0)
  and the popup is hidden.
\<close>

theorem backspace_composing:
  assumes "key ev = ascii ''Backspace''" and "\<not> metaKey_ev ev" and "\<not> metaKey s"
    and "showSuggestion s = DISPLAY_BLOCK"
  shows "(typedWord s \<noteq> [] \<longrightarrow>
            typedWord (step s (KeyUp ev)) = butlast (typedWord s)
          \<and> length (typedWord (step s (KeyUp ev))) = length (typedWord s) - 1
          \<and> showSuggestion (step s (KeyUp ev)) = DISPLAY_BLOCK)
       \<and> (typedWord s = [] \<longrightarrow>
            typedWord (step s (KeyUp ev)) = []
          \<and> suggestion (step s (KeyUp ev)) = []
          \<and> selectedSuggestion (step s (KeyUp ev)) = 0
          \<and> showSuggestion (step s (KeyUp ev)) = DISPLAY_NONE)"
  using assms
  by (simp add: step_def searchEffect_def onKeyUp_def handleNonAlphaKeyPress_def
      clearSuggestion_def slice_butlast butlast_neq key_names_not_alnum key_names_distinct)

theorem backspace_composing_witness:
  "typedWord (step (initial\<lparr> typedWord := ascii ''ab'', showSuggestion := DISPLAY_BLOCK \<rparr>)
       (KeyUp \<lparr> key = ascii ''Backspace'', metaKey_ev = False \<rparr>)) = ascii ''a''
   \<and> showSuggestion (step (initial\<lparr> typedWord := ascii ''ab'', showSuggestion := DISPLAY_BLOCK \<rparr>)
       (KeyUp \<lparr> key = ascii ''Backspace'', metaKey_ev = False \<rparr>)) = DISPLAY_BLOCK
   \<and> suggestion (step (initial\<lparr> suggestion := [CString (ascii ''x'')], selectedSuggestion := 0,
                              showSuggestion := DISPLAY_BLOCK \<rparr>)
       (KeyUp \<lparr> key = ascii ''Backspace'', metaKey_ev = False \<rparr>)) = []
   \<and> showSuggestion (step (initial\<lparr> suggestion := [CString (ascii ''x'')], selectedSuggestion := 0,
                              showSuggestion := DISPLAY_BLOCK \<rparr>)
       (KeyUp \<lparr> key = ascii ''Backspace'', metaKey_ev = False \<rparr>)) = DISPLAY_NONE"
  using backspace_composing [of "\<lparr> key = ascii ''Backspace'', metaKey_ev = False \<rparr>"
      "initial\<lparr> typedWord := ascii ''ab'', showSuggestion := DISPLAY_BLOCK \<rparr>"]
    backspace_composing [of "\<lparr> key = ascii ''Backspace'', metaKey_ev = False \<rparr>"
      "initial\<lparr> suggestion := [CString (ascii ''x'')], selectedSuggestion := 0,
                showSuggestion := DISPLAY_BLOCK \<rparr>"]
  by (simp add: initial_def ascii_def)

text \<open>
  With the modifier held the Backspace is dropped: composing \<open>ab\<close> with the popup shown,
  a Backspace key-up whose \<open>metaKey\<close> is set leaves \<open>typedWord\<close> at length 2.
\<close>

theorem backspace_suppressed:
  "\<not> (length (typedWord (step
          (initial\<lparr> typedWord := ascii ''ab'', showSuggestion := DISPLAY_BLOCK,
                    pendingSearch := Some (ascii ''ab'') \<rparr>)
          (KeyUp \<lparr> key = ascii ''Backspace'', metaKey_ev = True \<rparr>))) = 2 - 1)"
  by (simp add: step_def searchEffect_def onKeyUp_def initial_def ascii_def)

lemma composing_reachable:
  "run initial [KeyUp \<lparr> key = ascii ''a'', metaKey_ev = False \<rparr>,
                KeyUp \<lparr> key = ascii ''b'', metaKey_ev = False \<rparr>]
   = Some (initial\<lparr> typedWord := ascii ''ab'', showSuggestion := DISPLAY_BLOCK,
                    pendingSearch := Some (ascii ''ab'') \<rparr>)"
  by (simp add: enabled_def step_def searchEffect_def onKeyUp_def initial_def ascii_def
      alnum_unit_def)

text \<open>
  C9. An alphanumeric key-up processed while the \<open>metaKey\<close> ref is set changes neither
  \<open>typedWord\<close> nor any other part of the composition, the value or the cursor position;
  the ref stays set. The only trace is one more scheduled reset of the ref when the event
  itself carries the modifier.
\<close>

theorem onKeyUp_suppressed:
  assumes "metaKey s" and "isAplhaNumeric (key ev)"
  shows "step s (KeyUp ev) = (if metaKey_ev ev then s\<lparr> metaResets := metaResets s + 1 \<rparr> else s)
       \<and> typedWord (step s (KeyUp ev)) = typedWord s
       \<and> suggestion (step s (KeyUp ev)) = suggestion s
       \<and> selectedSuggestion (step s (KeyUp ev)) = selectedSuggestion s
       \<and> showSuggestion (step s (KeyUp ev)) = showSuggestion s
       \<and> value_st (step s (KeyUp ev)) = value_st s
       \<and> cursorPosition (step s (KeyUp ev)) = cursorPosition s
       \<and> metaKey (step s (KeyUp ev))"
  using assms
  by (auto simp: step_def searchEffect_def onKeyUp_def key_names_not_alnum)

theorem onKeyUp_suppressed_witness:
  "step (initial\<lparr> typedWord := ascii ''a'', showSuggestion := DISPLAY_BLOCK, metaKey := True \<rparr>)
        (KeyUp \<lparr> key = ascii ''v'', metaKey_ev = False \<rparr>)
     = initial\<lparr> typedWord := ascii ''a'', showSuggestion := DISPLAY_BLOCK, metaKey := True \<rparr>"
  using onKeyUp_suppressed [of "initial\<lparr> typedWord := ascii ''a'',
      showSuggestion := DISPLAY_BLOCK, metaKey := True \<rparr>"
      "\<lparr> key = ascii ''v'', metaKey_ev = False \<rparr>"]
  by (simp add: ascii_def alnum_unit_def)

lemma arrow_step:
  assumes "key ev = ascii ''ArrowDown'' \<or> key ev = ascii ''ArrowUp''"
  shows "suggestion (step s (KeyUp ev)) = suggestion s"
    and "0 \<le> selectedSuggestion s \<Longrightarrow>
         selectedSuggestion s \<le> max 0 (int (length (suggestion s)) - 1) \<Longrightarrow>
         0 \<le> selectedSuggestion (step s (KeyUp ev))
         \<and> selectedSuggestion (step s (KeyUp ev)) \<le> max 0 (int (length (suggestion s)) - 1)"
  using assms
  by (auto simp: step_def searchEffect_def onKeyUp_def handleNonAlphaKeyPress_def
      key_names_not_alnum key_names_distinct)

lemma arrow_down_at_last:
  assumes "key ev = ascii ''ArrowDown''"
    and "selectedSuggestion s = int (length (suggestion s)) - 1"
  shows "selectedSuggestion (step s (KeyUp ev)) = selectedSuggestion s"
  using assms
  by (auto simp: step_def searchEffect_def onKeyUp_def handleNonAlphaKeyPress_def
      key_names_not_alnum key_names_distinct)

lemma arrow_up_at_first:
  assumes "key ev = ascii ''ArrowUp''" and "selectedSuggestion s = 0"
  shows "selectedSuggestion (step s (KeyUp ev)) = selectedSuggestion s"
  using assms
  by (auto simp: step_def searchEffect_def onKeyUp_def handleNonAlphaKeyPress_def
      key_names_not_alnum key_names_distinct)

lemma arrows_run:
  assumes "\<forall>ev \<in> set evs. key ev = ascii ''ArrowDown'' \<or> key ev = ascii ''ArrowUp''"
    and "0 \<le> selectedSuggestion s"
    and "selectedSuggestion s \<le> max 0 (int (length (suggestion s)) - 1)"
  shows "suggestion (foldl step s (map KeyUp evs)) = suggestion s
       \<and> 0 \<le> selectedSuggestion (foldl step s (map KeyUp evs))
       \<and> selectedSuggestion (foldl step s (map KeyUp evs))
           \<le> max 0 (int (length (suggestion s)) - 1)"
  using assms
proof (induction evs arbitrary: s)
  case Nil
  then show ?case by simp
next
  case (Cons ev evs)
  have k: "key ev = ascii ''ArrowDown'' \<or> key ev = ascii ''ArrowUp''"
    using Cons.prems(1) by simp
  have sg: "suggestion (step s (KeyUp ev)) = suggestion s"
    using arrow_step(1) [OF k] .
  have rg: "0 \<le> selectedSuggestion (step s (KeyUp ev))
         \<and> selectedSuggestion (step s (KeyUp ev)) \<le> max 0 (int (length (suggestion s)) - 1)"
    using arrow_step(2) [OF k Cons.prems(2) Cons.prems(3)] .
  have "suggestion (foldl step (step s (KeyUp ev)) (map KeyUp evs)) = suggestion (step s (KeyUp ev))
       \<and> 0 \<le> selectedSuggestion (foldl step (step s (KeyUp ev)) (map KeyUp evs))
       \<and> selectedSuggestion (foldl step (step s (KeyUp ev)) (map KeyUp evs))
           \<le> max 0 (int (length (suggestion (step s (KeyUp ev)))) - 1)"
    using Cons.IH [of "step s (KeyUp ev)"] Cons.prems(1) rg sg by simp
  then show ?case using sg by simp
qed

text \<open>
  C6. Let \<open>selectedSuggestion\<close> start inside \<open>[0, length suggestion - 1]\<close> (for an empty
  list, which has no index, at 0). Then after every sequence of ArrowDown and ArrowUp
  key-ups, whatever the modifier state, \<open>suggestion\<close> is the same list and
  \<open>selectedSuggestion\<close> is still inside that interval. ArrowDown at the last index and
  ArrowUp at index 0 leave \<open>selectedSuggestion\<close> as it is: there is no wraparound.
\<close>

theorem arrows_clamped:
  assumes "\<forall>ev \<in> set evs. key ev = ascii ''ArrowDown'' \<or> key ev = ascii ''ArrowUp''"
    and "0 \<le> selectedSuggestion s"
    and "selectedSuggestion s \<le> max 0 (int (length (suggestion s)) - 1)"
  shows "suggestion (foldl step s (map KeyUp evs)) = suggestion s
       \<and> 0 \<le> selectedSuggestion (foldl step s (map KeyUp evs))
       \<and> selectedSuggestion (foldl step s (map KeyUp evs))
           \<le> max 0 (int (length (suggestion s)) - 1)
       \<and> (\<forall>ev. key ev = ascii ''ArrowDown'' \<longrightarrow>
             selectedSuggestion s = int (length (suggestion s)) - 1 \<longrightarrow>
             selectedSuggestion (step s (KeyUp ev)) = selectedSuggestion s)
       \<and> (\<forall>ev. key ev = ascii ''ArrowUp'' \<longrightarrow>
             selectedSuggestion s = 0 \<longrightarrow>
             selectedSuggestion (step s (KeyUp ev)) = selectedSuggestion s)"
  using arrows_run [OF assms] arrow_down_at_last arrow_up_at_first by blast

theorem arrows_clamped_witness:
  "selectedSuggestion (foldl step
      (initial\<lparr> typedWord := ascii ''a'', suggestion := [CString (ascii ''x''), CString (ascii ''a'')],
                showSuggestion := DISPLAY_BLOCK \<rparr>)
      (map KeyUp [\<lparr> key = ascii ''ArrowDown'', metaKey_ev = False \<rparr>,
                  \<lparr> key = ascii ''ArrowDown'', metaKey_ev = False \<rparr>,
                  \<lparr> key = ascii ''ArrowUp'', metaKey_ev = False \<rparr>,
                  \<lparr> key = ascii ''ArrowUp'', metaKey_ev = False \<rparr>])) \<le> 1
   \<and> selectedSuggestion (step
      (initial\<lparr> typedWord := ascii ''a'', suggestion := [CString (ascii ''x''), CString (ascii ''a'')],
                showSuggestion := DISPLAY_BLOCK \<rparr>)
      (KeyUp \<lparr> key = ascii ''ArrowUp'', metaKey_ev = False \<rparr>)) = 0"
  using arrows_clamped [of "[\<lparr> key = ascii ''ArrowDown'', metaKey_ev = False \<rparr>,
                  \<lparr> key = ascii ''ArrowDown'', metaKey_ev = False \<rparr>,
                  \<lparr> key = ascii ''ArrowUp'', metaKey_ev = False \<rparr>,
                  \<lparr> key = ascii ''ArrowUp'', metaKey_ev = False \<rparr>]"
      "initial\<lparr> typedWord := ascii ''a'', suggestion := [CString (ascii ''x''), CString (ascii ''a'')],
                showSuggestion := DISPLAY_BLOCK \<rparr>"]
  by (simp add: initial_def)

subsection \<open>Responses\<close>

text \<open>
  What the validation gets right. A response that passes every check and whose
  alternatives are an array sets the candidates to the alternatives followed by the
  original; a response that fails a check is dropped.
\<close>

lemma on_response_valid:
  "on_response (JArray (JString (ascii ''SUCCESS'') #
        JArray (JArray (original # JArray alternatives # extra) # others) # rest))
     = SetSuggestion (alternatives @ [original])"
  by (simp add: on_response_def on_data_res_def)

lemma on_response_not_array: "(\<forall>d. data \<noteq> JArray d) \<Longrightarrow> on_response data = Returned"
  by (cases data) (simp_all add: on_response_def)

lemma on_response_short: "length d < 2 \<Longrightarrow> on_response (JArray d) = Returned"
  by (simp add: on_response_def)

lemma on_response_marker:
  "d ! 0 \<noteq> JString (ascii ''SUCCESS'') \<Longrightarrow> on_response (JArray d) = Returned"
  by (simp add: on_response_def)

lemma on_response_no_results:
  "(\<forall>d1. d ! 1 \<noteq> JArray d1) \<or> d ! 1 = JArray [] \<Longrightarrow> on_response (JArray d) = Returned"
  by (cases "d ! 1") (auto simp: on_response_def)

lemma on_data_res_invalid:
  "(\<forall>r. dataRes \<noteq> JArray r) \<or> (\<exists>r. dataRes = JArray r \<and> length r < 2) \<Longrightarrow>
   on_data_res dataRes = Returned"
  by (cases dataRes) (auto simp: on_data_res_def)

lemma on_response_cafe:
  "on_response (JArray [JString (ascii ''SUCCESS''),
       JArray [JArray [JString (ascii ''caf'' @ [0xE9]),
                       JArray [JString (ascii ''coffee''), JString (ascii ''kaffe'')]]]])
     = SetSuggestion [JString (ascii ''coffee''), JString (ascii ''kaffe''),
                      JString (ascii ''caf'' @ [0xE9])]"
  by (simp add: on_response_def on_data_res_def)

lemma on_response_failure:
  "on_response (JArray [JString (ascii ''FAILURE'')]) = Returned"
  "on_response (JArray []) = Returned"
  "on_response (JString (ascii ''SUCCESS'')) = Returned"
  by (simp_all add: on_response_def)

text \<open>
  C2. The claim fails on the code. The response \<^verbatim>\<open>["SUCCESS", [["x", null]]]\<close> passes
  every check of the callback: it is an array of length 2, its marker is \<open>SUCCESS\<close>, its
  second element is a non-empty array and the first entry of that is an array of length
  2. No check looks at the alternatives, and the spread of \<^verbatim>\<open>null\<close> throws a
  \<^verbatim>\<open>TypeError\<close>: the candidates are neither set to the alternatives followed by the
  original, nor is the response dropped without an error.
\<close>

theorem on_response_not_iterable:
  "on_response (JArray [JString (ascii ''SUCCESS''),
       JArray [JArray [JString (ascii ''x''), JNull]]]) = ThrewTypeError"
  by (simp add: on_response_def on_data_res_def)

text \<open>
  The same gap lets a string pass for the alternatives: it is spread into its code
  points.
\<close>

lemma on_response_string_alternatives:
  "on_response (JArray [JString (ascii ''SUCCESS''),
       JArray [JArray [JString (ascii ''x''), JString (ascii ''ab'')]]])
     = SetSuggestion [JString (ascii ''a''), JString (ascii ''b''), JString (ascii ''x'')]"
  by (simp add: on_response_def on_data_res_def ascii_def)

subsection \<open>What the handlers leave alone\<close>

lemma clearSuggestion_frame:
  "value_st (clearSuggestion s) = value_st s"
  "cursorPosition (clearSuggestion s) = cursorPosition s"
  "pendingSearch (clearSuggestion s) = pendingSearch s"
  "requests (clearSuggestion s) = requests s"
  by (simp_all add: clearSuggestion_def)

lemma selectSuggestion_frame:
  "pendingSearch (selectSuggestion idx s) = pendingSearch s"
  "requests (selectSuggestion idx s) = requests s"
  by (simp_all add: selectSuggestion_def clearSuggestion_def Let_def split: option.splits)

lemma handleNonAlphaKeyPress_frame:
  "pendingSearch (handleNonAlphaKeyPress k s) = pendingSearch s"
  "requests (handleNonAlphaKeyPress k s) = requests s"
  by (simp_all add: handleNonAlphaKeyPress_def selectSuggestion_frame clearSuggestion_frame)

lemma onKeyUp_frame:
  "pendingSearch (onKeyUp ev s) = pendingSearch s"
  "requests (onKeyUp ev s) = requests s"
  by (simp_all add: onKeyUp_def handleNonAlphaKeyPress_frame)

lemma onChange_frame:
  "pendingSearch (onChange ev s) = pendingSearch s"
  "requests (onChange ev s) = requests s"
  "typedWord (onChange ev s) = typedWord s"
  by (simp_all add: onChange_def Let_def)

lemma receive_frame:
  "requests (receive data s) = requests s"
  "typedWord (receive data s) = typedWord s"
  "value_st (receive data s) = value_st s"
  "cursorPosition (receive data s) = cursorPosition s"
  "pendingSearch (receive data s) = pendingSearch s \<or> pendingSearch (receive data s) = None"
  by (simp_all add: receive_def Let_def split: outcome.splits option.splits)

lemma debounceFired_frame:
  "typedWord (debounceFired s) = typedWord s"
  "pendingSearch (debounceFired s) = None"
  "value_st (debounceFired s) = value_st s"
  "cursorPosition (debounceFired s) = cursorPosition s"
  by (simp_all add: debounceFired_def debouncedSearch_def split: option.splits)

lemma searchEffect_frame:
  "value_st (searchEffect old new) = value_st new"
  "cursorPosition (searchEffect old new) = cursorPosition new"
  "requests (searchEffect old new) = requests new"
  "typedWord (searchEffect old new) = typedWord new"
  "showSuggestion (searchEffect old new) = showSuggestion new"
  by (simp_all add: searchEffect_def)

text \<open>Only the debounce timer clears the armed search; only the effect arms it.\<close>

lemma handle_pendingSearch:
  "pendingSearch (handle e s) = pendingSearch s \<or> pendingSearch (handle e s) = None"
  by (cases e)
    (simp_all add: onKeyDown_def onKeyUp_frame onChange_frame selectSuggestion_frame
      metaReset_def debounceFired_frame receive_frame)

lemma handle_requests:
  "e \<noteq> DebounceFired \<Longrightarrow> requests (handle e s) = requests s"
  by (cases e)
    (simp_all add: onKeyDown_def onKeyUp_frame onChange_frame selectSuggestion_frame
      metaReset_def receive_frame)

subsection \<open>The armed search is the typed word\<close>

lemma pending_step:
  assumes "\<forall>w. pendingSearch s = Some w \<longrightarrow> w = typedWord s \<and> w \<noteq> []"
  shows "\<forall>w. pendingSearch (step s e) = Some w \<longrightarrow> w = typedWord (step s e) \<and> w \<noteq> []"
proof (cases "typedWord (handle e s) = typedWord s")
  case True
  then have eq: "step s e = handle e s"
    by (simp add: step_def searchEffect_def)
  from handle_pendingSearch [of e s] assms True show ?thesis
    unfolding eq by auto
next
  case False
  then show ?thesis
    by (simp add: step_def searchEffect_def)
qed

lemma pending_run:
  assumes "\<forall>w. pendingSearch s = Some w \<longrightarrow> w = typedWord s \<and> w \<noteq> []"
    and "run s es = Some s'"
  shows "\<forall>w. pendingSearch s' = Some w \<longrightarrow> w = typedWord s' \<and> w \<noteq> []"
  using assms
proof (induction es arbitrary: s)
  case Nil
  then show ?case by simp
next
  case (Cons e es)
  from Cons.prems(2) have r: "run (step s e) es = Some s'"
    by (simp split: if_splits)
  show ?case
    by (rule Cons.IH [OF pending_step [OF Cons.prems(1)] r])
qed

lemma pending_reachable:
  assumes "run initial es = Some s" and "pendingSearch s = Some w"
  shows "w = typedWord s \<and> w \<noteq> []"
proof -
  have "\<forall>w. pendingSearch initial = Some w \<longrightarrow> w = typedWord initial \<and> w \<noteq> []"
    by (simp add: initial_def)
  from pending_run [OF this assms(1)] assms(2) show ?thesis by blast
qed

lemma step_requests:
  assumes "requests (step s e) \<noteq> requests s"
  shows "e = DebounceFired \<and> (\<exists>w. pendingSearch s = Some w \<and> w \<noteq> []
           \<and> requests (step s e) = requests s @ [w])"
proof -
  have e: "e = DebounceFired"
    using assms handle_requests [of e s] by (auto simp: step_def searchEffect_frame)
  have "requests (step s DebounceFired) = requests (debounceFired s)"
    by (simp add: step_def searchEffect_frame)
  with assms e show ?thesis
    by (auto simp: debounceFired_def debouncedSearch_def split: option.splits if_splits)
qed

text \<open>
  C10. The debounced callback invoked with the empty word returns the state it was given:
  no request is issued, \<open>suggestion\<close> and everything else stay as they were; a timer armed
  with the empty word fires without any effect but disarming. And in every state the
  component can reach, an event that issues a request is the firing of the debounce
  timer, the requested word is the current \<open>typedWord\<close>, and it is not empty.
\<close>

theorem fetch_needs_typed_word:
  "debouncedSearch [] s = s
   \<and> debounceFired (s\<lparr> pendingSearch := Some [] \<rparr>) = s\<lparr> pendingSearch := None \<rparr>
   \<and> (run initial es = Some t \<longrightarrow> requests (step t e) \<noteq> requests t \<longrightarrow>
        e = DebounceFired \<and> typedWord t \<noteq> []
        \<and> requests (step t e) = requests t @ [typedWord t])"
proof -
  have a: "debouncedSearch [] s = s"
    by (simp add: debouncedSearch_def)
  have b: "debounceFired (s\<lparr> pendingSearch := Some [] \<rparr>) = s\<lparr> pendingSearch := None \<rparr>"
    by (simp add: debounceFired_def debouncedSearch_def)
  have c: "e = DebounceFired \<and> typedWord t \<noteq> []
        \<and> requests (step t e) = requests t @ [typedWord t]"
    if r: "run initial es = Some t" and q: "requests (step t e) \<noteq> requests t"
  proof -
    from step_requests [OF q] obtain w where
      e: "e = DebounceFired" and p: "pendingSearch t = Some w"
      and w: "requests (step t e) = requests t @ [w]" by blast
    from pending_reachable [OF r p] have "w = typedWord t" and "w \<noteq> []" by auto
    with e w show ?thesis by simp
  qed
  from a b c show ?thesis by blast
qed

theorem fetch_needs_typed_word_witness:
  "run initial [KeyUp \<lparr> key = ascii ''a'', metaKey_ev = False \<rparr>]
     = Some (initial\<lparr> typedWord := ascii ''a'', showSuggestion := DISPLAY_BLOCK,
                      pendingSearch := Some (ascii ''a'') \<rparr>)
   \<and> requests (step (initial\<lparr> typedWord := ascii ''a'', showSuggestion := DISPLAY_BLOCK,
                               pendingSearch := Some (ascii ''a'') \<rparr>) DebounceFired)
       = [ascii ''a'']"
proof -
  have r: "run initial [KeyUp \<lparr> key = ascii ''a'', metaKey_ev = False \<rparr>]
     = Some (initial\<lparr> typedWord := ascii ''a'', showSuggestion := DISPLAY_BLOCK,
                      pendingSearch := Some (ascii ''a'') \<rparr>)"
    by (simp add: enabled_def step_def searchEffect_def onKeyUp_def initial_def ascii_def
        alnum_unit_def)
  have q: "requests (step (initial\<lparr> typedWord := ascii ''a'', showSuggestion := DISPLAY_BLOCK,
                               pendingSearch := Some (ascii ''a'') \<rparr>) DebounceFired)
       \<noteq> requests (initial\<lparr> typedWord := ascii ''a'', showSuggestion := DISPLAY_BLOCK,
                               pendingSearch := Some (ascii ''a'') \<rparr>)"
    by (simp add: step_def searchEffect_def debounceFired_def debouncedSearch_def
        initial_def ascii_def)
  from fetch_needs_typed_word [of initial "[KeyUp \<lparr> key = ascii ''a'', metaKey_ev = False \<rparr>]"
      "initial\<lparr> typedWord := ascii ''a'', showSuggestion := DISPLAY_BLOCK,
                pendingSearch := Some (ascii ''a'') \<rparr>" DebounceFired] r q
  show ?thesis by (simp add: initial_def)
qed

subsection \<open>The cursor position\<close>

lemma as_candidates_strings:
  "list_all is_string xs \<Longrightarrow> \<exists>cs. as_candidates xs = Some cs \<and> list_all is_text cs"
proof (induction xs)
  case Nil
  then show ?case by simp
next
  case (Cons x xs)
  then obtain cs where cs: "as_candidates xs = Some cs" "list_all is_text cs" by auto
  from Cons.prems obtain str where "x = JString str" by (cases x) simp_all
  with cs show ?case by simp
qed

lemma receive_text:
  assumes "text_response data" and "list_all is_text (suggestion s)"
  shows "list_all is_text (suggestion (receive data s))"
proof (cases "on_response data")
  case (SetSuggestion xs)
  with assms(1) have "list_all is_string xs" by (simp add: text_response_def)
  from as_candidates_strings [OF this] SetSuggestion show ?thesis
    by (auto simp: receive_def Let_def)
qed (use assms(2) in \<open>simp_all add: receive_def Let_def\<close>)

lemma selectSuggestion_suggestion: "suggestion (selectSuggestion idx s) = []"
  by (simp add: selectSuggestion_def clearSuggestion_def Let_def split: option.splits)

lemma handleNonAlphaKeyPress_text:
  "list_all is_text (suggestion s) \<Longrightarrow> list_all is_text (suggestion (handleNonAlphaKeyPress k s))"
  by (simp add: handleNonAlphaKeyPress_def selectSuggestion_suggestion clearSuggestion_def)

lemma onKeyUp_text:
  "list_all is_text (suggestion s) \<Longrightarrow> list_all is_text (suggestion (onKeyUp ev s))"
  by (simp add: onKeyUp_def handleNonAlphaKeyPress_text)

lemma step_text:
  assumes "list_all is_text (suggestion s)" and "\<forall>data. e = Response data \<longrightarrow> text_response data"
  shows "list_all is_text (suggestion (step s e))"
proof -
  have "list_all is_text (suggestion (handle e s))"
    using assms
    by (cases e)
      (simp_all add: onKeyDown_def onKeyUp_text onChange_def Let_def
        selectSuggestion_suggestion metaReset_def debounceFired_def debouncedSearch_def
        receive_text split: option.splits)
  then show ?thesis by (simp add: step_def searchEffect_def)
qed

text \<open>Committing a string keeps the cursor position a non-negative integer inside the value.\<close>

lemma index_text:
  assumes "list_all is_text xs" and "index xs i = Some c"
  obtains str where "c = CString str"
proof -
  from assms(2) have "c \<in> set xs"
    by (auto simp: index_def split: if_splits)
  with assms(1) have "is_text c" by (simp add: list_all_iff)
  then show ?thesis using that by (cases c) simp_all
qed

lemma selectSuggestion_non_negative:
  assumes "list_all is_text (suggestion s)" and "non_negative (cursorPosition s)"
  shows "non_negative (cursorPosition (selectSuggestion idx s))"
proof (cases "index (suggestion s) idx")
  case None
  with assms(2) show ?thesis
    by (simp add: selectSuggestion_def clearSuggestion_def)
next
  case (Some c)
  from index_text [OF assms(1) Some] obtain str where c: "c = CString str" .
  from assms(2) obtain p where p: "cursorPosition s = Num p" "0 \<le> p"
    by (cases "cursorPosition s") simp_all
  from Some c p show ?thesis
    by (simp add: selectSuggestion_def clearSuggestion_def)
qed

lemma selectSuggestion_in_range:
  assumes "list_all is_text (suggestion s)"
    and "in_range (cursorPosition s) (length (value_st s))"
  shows "in_range (cursorPosition (selectSuggestion idx s))
           (length (value_st (selectSuggestion idx s)))"
proof (cases "index (suggestion s) idx")
  case None
  with assms(2) show ?thesis
    by (simp add: selectSuggestion_def clearSuggestion_def)
next
  case (Some c)
  from index_text [OF assms(1) Some] obtain str where c: "c = CString str" .
  from assms(2) obtain p where p: "cursorPosition s = Num p" "0 \<le> p" "p \<le> int (length (value_st s))"
    by (cases "cursorPosition s") simp_all
  have "length (take (nat p) (value_st s)) + length (drop (nat p) (value_st s))
          = length (value_st s)"
    by (simp only: length_append [symmetric] append_take_drop_id)
  with Some c p show ?thesis
    by (simp add: selectSuggestion_def clearSuggestion_def substring_prefix
        substring_suffix ascii_def)
qed

lemma handleNonAlphaKeyPress_cursor:
  assumes "list_all is_text (suggestion s)"
  shows "non_negative (cursorPosition s) \<Longrightarrow>
         non_negative (cursorPosition (handleNonAlphaKeyPress k s))"
    and "in_range (cursorPosition s) (length (value_st s)) \<Longrightarrow>
         in_range (cursorPosition (handleNonAlphaKeyPress k s))
           (length (value_st (handleNonAlphaKeyPress k s)))"
  using assms
  by (simp_all add: handleNonAlphaKeyPress_def selectSuggestion_non_negative
      selectSuggestion_in_range clearSuggestion_frame)

lemma onKeyUp_cursor:
  assumes "list_all is_text (suggestion s)"
  shows "non_negative (cursorPosition s) \<Longrightarrow> non_negative (cursorPosition (onKeyUp ev s))"
    and "in_range (cursorPosition s) (length (value_st s)) \<Longrightarrow>
         in_range (cursorPosition (onKeyUp ev s)) (length (value_st (onKeyUp ev s)))"
  using assms
  by (simp_all add: onKeyUp_def handleNonAlphaKeyPress_cursor)

lemma onChange_non_negative:
  assumes "selectionStart ev \<le> selectionEnd ev" and "non_negative (cursorPosition s)"
  shows "non_negative (cursorPosition (onChange ev s))"
  using assms by (auto simp: onChange_def Let_def lastChar_alnum)

lemma onChange_in_range:
  assumes "deliverable s (Change ev)" and "well_behaved s (Change ev)"
    and "showSuggestion s = DISPLAY_BLOCK \<longrightarrow> in_range (cursorPosition s) (length (value_st s))"
  shows "in_range (cursorPosition (onChange ev s)) (length (value_st (onChange ev s)))"
proof (cases "showSuggestion s")
  case DISPLAY_NONE
  with assms show ?thesis by (auto simp: onChange_hidden_state)
next
  case DISPLAY_BLOCK
  with assms show ?thesis by (simp add: onChange_def)
qed

lemma step_non_negative:
  assumes "enabled s e" and "list_all is_text (suggestion s)"
    and "non_negative (cursorPosition s)"
  shows "non_negative (cursorPosition (step s e))"
  using assms
  by (cases e)
    (simp_all add: enabled_def step_def searchEffect_frame onKeyDown_def onKeyUp_cursor
      onChange_non_negative selectSuggestion_non_negative metaReset_def
      debounceFired_frame receive_frame)

lemma step_in_range:
  assumes "enabled s e" and "well_behaved s e" and "list_all is_text (suggestion s)"
    and "in_range (cursorPosition s) (length (value_st s))"
  shows "in_range (cursorPosition (step s e)) (length (value_st (step s e)))"
proof (cases e)
  case (Change ev)
  with assms show ?thesis
    by (simp add: enabled_def step_def searchEffect_frame onChange_in_range)
qed (use assms in \<open>simp_all add: enabled_def step_def searchEffect_frame onKeyDown_def
      onKeyUp_cursor selectSuggestion_in_range metaReset_def debounceFired_frame
      receive_frame\<close>)

lemma run_non_negative:
  assumes "run s es = Some s'" and "\<forall>data. Response data \<in> set es \<longrightarrow> text_response data"
    and "list_all is_text (suggestion s)" and "non_negative (cursorPosition s)"
  shows "non_negative (cursorPosition s')"
  using assms
proof (induction es arbitrary: s)
  case Nil
  then show ?case by simp
next
  case (Cons e es)
  from Cons.prems(1) have en: "enabled s e" and r: "run (step s e) es = Some s'"
    by (simp_all split: if_splits)
  have t: "list_all is_text (suggestion (step s e))"
    using Cons.prems(2) by (intro step_text [OF Cons.prems(3)]) simp
  have n: "non_negative (cursorPosition (step s e))"
    by (rule step_non_negative [OF en Cons.prems(3) Cons.prems(4)])
  from Cons.prems(2) have "\<forall>data. Response data \<in> set es \<longrightarrow> text_response data" by simp
  from Cons.IH [OF r this t n] show ?case .
qed

lemma run_in_range:
  assumes "run s es = Some s'" and "well_behaved_run s es"
    and "list_all is_text (suggestion s)"
    and "in_range (cursorPosition s) (length (value_st s))"
  shows "in_range (cursorPosition s') (length (value_st s'))"
  using assms
proof (induction es arbitrary: s)
  case Nil
  then show ?case by simp
next
  case (Cons e es)
  from Cons.prems(1) have en: "enabled s e" and r: "run (step s e) es = Some s'"
    by (simp_all split: if_splits)
  from Cons.prems(2) have w: "well_behaved s e" and wr: "well_behaved_run (step s e) es"
    by simp_all
  have t: "list_all is_text (suggestion (step s e))"
    using w by (intro step_text [OF Cons.prems(3)]) auto
  have i: "in_range (cursorPosition (step s e)) (length (value_st (step s e)))"
    by (rule step_in_range [OF en w Cons.prems(3) Cons.prems(4)])
  from Cons.IH [OF r wr t i] show ?case .
qed

lemma one_unit_well_behaved:
  assumes "deliverable s (Change ev)"
    and "length (target_value ev) \<le> length (value_st s) + 1"
  shows "well_behaved s (Change ev)"
  using assms by simp

lemma run_Cons: "enabled s e \<Longrightarrow> run s (e # es) = run (step s e) es"
  by simp

text \<open>
  C3 (as amended). While every candidate the service delivers is a string, as
  \<open>suggestion\<close> is declared:
  \<^item> in every state the component can reach from its first render, \<open>0 \<le> cursorPosition\<close>;
  \<^item> from a state with \<open>0 \<le> cursorPosition \<le> length value\<close>, every sequence of events
    leads to a state with \<open>0 \<le> cursorPosition \<le> length value\<close> again, provided that no
    native change which arrives with the popup hidden and an alphanumeric code unit
    before its \<open>selectionStart\<close> reports a \<open>selectionEnd\<close> beyond \<open>length value + 1\<close>
    (an edit that inserts at most one code unit never does);
  \<^item> after a native change that arrives with the popup hidden, other than one of that
    kind, \<open>0 \<le> cursorPosition \<le> length value\<close> holds whatever the state before.
\<close>

theorem cursorPosition_bounds:
  "(run initial es = Some s \<longrightarrow>
      (\<forall>data. Response data \<in> set es \<longrightarrow> text_response data) \<longrightarrow>
      non_negative (cursorPosition s))
   \<and> (run t es' = Some t' \<longrightarrow> well_behaved_run t es' \<longrightarrow>
        list_all is_text (suggestion t) \<longrightarrow>
        in_range (cursorPosition t) (length (value_st t)) \<longrightarrow>
        in_range (cursorPosition t') (length (value_st t')))
   \<and> (enabled u (Change cv) \<longrightarrow> well_behaved u (Change cv) \<longrightarrow>
        showSuggestion u = DISPLAY_NONE \<longrightarrow>
        in_range (cursorPosition (step u (Change cv)))
          (length (value_st (step u (Change cv)))))"
proof -
  have a: "non_negative (cursorPosition s)"
    if "run initial es = Some s"
      and "\<forall>data. Response data \<in> set es \<longrightarrow> text_response data"
    by (rule run_non_negative [OF that]) (simp_all add: initial_def)
  have c: "in_range (cursorPosition (step u (Change cv)))
          (length (value_st (step u (Change cv))))"
    if "enabled u (Change cv)" and "well_behaved u (Change cv)"
      and "showSuggestion u = DISPLAY_NONE"
    using that onChange_in_range [of u cv]
    by (simp add: enabled_def step_def searchEffect_frame)
  from a run_in_range [of t es' t'] c show ?thesis by blast
qed

theorem cursorPosition_bounds_witness:
  "run initial
     [Change \<lparr> target_value = ascii ''a'', selectionStart = 1, selectionEnd = 1 \<rparr>,
      KeyUp \<lparr> key = ascii ''a'', metaKey_ev = False \<rparr>,
      DebounceFired,
      Response (JArray [JString (ascii ''SUCCESS''),
                  JArray [JArray [JString (ascii ''a''), JArray [JString (ascii ''x'')]]]]),
      KeyUp \<lparr> key = ascii ''Enter'', metaKey_ev = False \<rparr>]
     = Some (initial\<lparr> value_st := ascii ''x '', cursorPosition := Num 2,
                      requests := [ascii ''a''] \<rparr>)
   \<and> non_negative (Num 2)
   \<and> in_range (Num 2) (length (ascii ''x ''))
   \<and> in_range (cursorPosition (step initial
        (Change \<lparr> target_value = ascii ''a'', selectionStart = 1, selectionEnd = 1 \<rparr>)))
        (length (value_st (step initial
        (Change \<lparr> target_value = ascii ''a'', selectionStart = 1, selectionEnd = 1 \<rparr>))))"
proof -
  let ?c = "\<lparr> target_value = ascii ''a'', selectionStart = 1, selectionEnd = 1 \<rparr>"
  let ?es = "[KeyUp \<lparr> key = ascii ''a'', metaKey_ev = False \<rparr>,
      DebounceFired,
      Response (JArray [JString (ascii ''SUCCESS''),
                  JArray [JArray [JString (ascii ''a''), JArray [JString (ascii ''x'')]]]]),
      KeyUp \<lparr> key = ascii ''Enter'', metaKey_ev = False \<rparr>]"
  let ?s1 = "initial\<lparr> cursorPosition := Num 0 \<rparr>"
  let ?s = "initial\<lparr> value_st := ascii ''x '', cursorPosition := Num 2,
                      requests := [ascii ''a''] \<rparr>"
  have first: "step initial (Change ?c) = ?s1"
    by (simp add: step_def searchEffect_def onChange_def slice_from_def slice_def
        substring_def initial_def ascii_def alnum_unit_def)
  have rest: "run ?s1 ?es = Some ?s"
    by (simp add: enabled_def step_def searchEffect_def onKeyUp_def
        handleNonAlphaKeyPress_def selectSuggestion_def index_def clearSuggestion_def
        substring_def debounceFired_def debouncedSearch_def receive_def on_response_def
        on_data_res_def initial_def ascii_def alnum_unit_def)
  have en0: "enabled initial (Change ?c)"
    by (simp add: enabled_def initial_def ascii_def)
  have whole: "run initial (Change ?c # ?es) = Some ?s"
    by (simp only: run_Cons [OF en0] first rest)
  have tr: "\<forall>data. Response data \<in> set (Change ?c # ?es) \<longrightarrow> text_response data"
    by (simp add: text_response_def on_response_def on_data_res_def)
  have wb: "well_behaved_run ?s1 ?es"
    by (simp add: text_response_def on_response_def on_data_res_def)
  have en: "well_behaved initial (Change ?c)" "showSuggestion initial = DISPLAY_NONE"
    by (simp_all add: initial_def)
  have s1: "list_all is_text (suggestion ?s1)" "in_range (cursorPosition ?s1) (length (value_st ?s1))"
    by (simp_all add: initial_def)
  from cursorPosition_bounds [of "Change ?c # ?es" ?s ?s1 ?es ?s initial ?c]
    whole tr rest wb s1 en0 en
  show ?thesis by (simp add: ascii_def)
qed

text \<open>
  The upper bound is not an invariant: on the first render the cursor position is 1 and
  the value is empty.
\<close>

theorem cursorPosition_initial:
  "\<not> in_range (cursorPosition initial) (length (value_st initial))"
  by (simp add: initial_def)

text \<open>
  The conditions are needed. A native change that inserts several code units at once is
  rejected with the cursor moved behind the value: pasting \<open>abc\<close> into a field holding a
  space moves the cursor position to 2 and leaves the value at length 1.
\<close>

lemma cursorPosition_after_paste:
  "run initial [Change \<lparr> target_value = ascii '' '', selectionStart = 1, selectionEnd = 1 \<rparr>,
                Change \<lparr> target_value = ascii ''abc'', selectionStart = 3, selectionEnd = 3 \<rparr>]
     = Some (initial\<lparr> cursorPosition := Num 2, value_st := ascii '' '' \<rparr>)"
  by (simp add: enabled_def step_def searchEffect_def onChange_def slice_from_def slice_def
      substring_def initial_def ascii_def alnum_unit_def)

text \<open>
  And a candidate that is not a string takes the cursor position out of the integers:
  the response \<^verbatim>\<open>["SUCCESS", [["a", [7]]]]\<close> passes every check, the number 7 becomes
  the first candidate, and committing it inserts the text \<open>7\<close> and adds
  \<^verbatim>\<open>undefined\<close> to the cursor position, which is \<^verbatim>\<open>NaN\<close> from then on.
\<close>

lemma cursorPosition_after_number:
  "run initial
     [KeyUp \<lparr> key = ascii ''a'', metaKey_ev = False \<rparr>,
      DebounceFired,
      Response (JArray [JString (ascii ''SUCCESS''),
                  JArray [JArray [JString (ascii ''a''), JArray [JNumber 7]]]]),
      KeyUp \<lparr> key = ascii ''Enter'', metaKey_ev = False \<rparr>]
     = Some (initial\<lparr> value_st := ascii ''7 '', cursorPosition := NaN,
                      requests := [ascii ''a''] \<rparr>)"
  by (simp add: enabled_def step_def searchEffect_def onKeyUp_def
      handleNonAlphaKeyPress_def selectSuggestion_def index_def clearSuggestion_def
      substring_def debounceFired_def debouncedSearch_def receive_def on_response_def
      on_data_res_def number_text_def decimal.simps [of 7] initial_def ascii_def
      alnum_unit_def)

text \<open>
  A candidate that is an object never reaches a commit: the render after the response
  fails, and the component is gone.
\<close>

lemma unmounted_after_object:
  "run initial
     [KeyUp \<lparr> key = ascii ''a'', metaKey_ev = False \<rparr>,
      DebounceFired,
      Response (JArray [JString (ascii ''SUCCESS''),
                  JArray [JArray [JString (ascii ''a''), JArray [JObject []]]]])]
     = Some (initial\<lparr> typedWord := ascii ''a'', showSuggestion := DISPLAY_BLOCK,
                      requests := [ascii ''a''], unmounted := True \<rparr>)"
  by (simp add: enabled_def step_def searchEffect_def onKeyUp_def debounceFired_def
      debouncedSearch_def receive_def on_response_def on_data_res_def initial_def
      ascii_def alnum_unit_def)

lemma unmounted_stays: "unmounted s \<Longrightarrow> run s (e # es) = None"
  by (simp add: enabled_def)

end
